theory Spec2Isabelle
  imports Complex_Main
begin

section \<open>The forward Euler notebook\<close>

text \<open>
  The notebook \<^verbatim>\<open>1_1_forward_euler.ipynb\<close> is a linear script over global variables.
  Its code cells are embedded statement by statement as transformers of the record of
  those globals; a statement that raises leaves the globals as the statements before it
  wrote them.

  Numbers are real numbers and arithmetic is exact. The notebook computes in binary64:
  the embedding computes what the notebook computes on a run in which every quotient,
  product and sum is representable, so that nothing is rounded, and the arrays can be
  allocated. Rounding, overflow to infinity, NaN and the conversions between Python
  integers, \<^verbatim>\<open>int64\<close> and \<^verbatim>\<open>float64\<close> are not part of it. What is proved below is
  therefore of three kinds: the run at inputs where the binary64 arithmetic is exact,
  properties that hold whatever the arithmetic is (which variables a run writes, what
  it does when the step is zero), and the convergence of the method, a limit in exact
  arithmetic.
\<close>

subsection \<open>Python and NumPy primitives\<close>

datatype error = ZeroDivisionError | ValueError | IndexError

fun bindE :: "error + 'a \<Rightarrow> ('a \<Rightarrow> error + 'b) \<Rightarrow> error + 'b" where
  "bindE (Inl e) f = Inl e"
| "bindE (Inr x) f = f x"

text \<open>Python's true division \<^verbatim>\<open>a / b\<close> raises on a zero divisor.\<close>

definition py_div :: "real \<Rightarrow> real \<Rightarrow> error + real" where
  "py_div a b = (if b = 0 then Inl ZeroDivisionError else Inr (a / b))"

text \<open>\<^verbatim>\<open>int(x)\<close> truncates towards zero.\<close>

definition py_int :: "real \<Rightarrow> int" where
  "py_int x = (if 0 \<le> x then \<lfloor>x\<rfloor> else \<lceil>x\<rceil>)"

text \<open>\<^verbatim>\<open>np.zeros(n)\<close> raises \<^verbatim>\<open>ValueError\<close> on a negative dimension.\<close>

definition np_zeros :: "int \<Rightarrow> error + real list" where
  "np_zeros n = (if n < 0 then Inl ValueError else Inr (replicate (nat n) 0))"

text \<open>
  The position an index \<open>i\<close> denotes in an array of length \<open>n\<close>: \<open>i\<close> itself from 0 to
  \<open>n - 1\<close>, \<open>n + i\<close> from \<open>-n\<close> to \<open>-1\<close>, and \<^verbatim>\<open>IndexError\<close> anywhere else.
\<close>

definition norm_index :: "'a list \<Rightarrow> int \<Rightarrow> error + nat" where
  "norm_index xs i =
     (if 0 \<le> i \<and> i < int (length xs) then Inr (nat i)
      else if - int (length xs) \<le> i \<and> i < 0 then Inr (nat (int (length xs) + i))
      else Inl IndexError)"

definition getitem :: "'a list \<Rightarrow> int \<Rightarrow> error + 'a" where
  "getitem xs i = bindE (norm_index xs i) (\<lambda>j. Inr (xs ! j))"

definition setitem :: "'a list \<Rightarrow> int \<Rightarrow> 'a \<Rightarrow> error + 'a list" where
  "setitem xs i v = bindE (norm_index xs i) (\<lambda>j. Inr (xs[j := v]))"

text \<open>\<^verbatim>\<open>range(a, b)\<close> and \<^verbatim>\<open>np.arange(n)\<close>; both are empty when the bound is too small.\<close>

definition py_range :: "int \<Rightarrow> int \<Rightarrow> int list" where
  "py_range a b = [a..b - 1]"

definition np_arange :: "int \<Rightarrow> real list" where
  "np_arange n = map real_of_int [0..n - 1]"

subsection \<open>The global variables\<close>

text \<open>
  The array of time coordinates is the global \<^verbatim>\<open>times\<close> of the notebook; the field is
  called \<open>times_arr\<close> because \<open>times\<close> is the multiplication of HOL. The extension of
  the record stands for every other variable of the notebook.
\<close>

record notebook =
  N_0 :: real
  r :: real
  T_total :: real
  delta_t :: real
  num_steps :: int
  N_t :: "real list"
  t :: int
  dN :: real
  times_arr :: "real list"
  solution :: "real list"

subsection \<open>Statements and their sequence\<close>

text \<open>
  The outcome of a piece of the script is the exception it raised, if any, and the
  globals as it left them. A statement evaluates its right-hand side, which may raise,
  and only then writes; a sequence stops at the first exception.
\<close>

fun stmt :: "error + 's \<Rightarrow> 's \<Rightarrow> error option \<times> 's" where
  "stmt (Inl e) s = (Some e, s)"
| "stmt (Inr s') s = (None, s')"

definition and_then ::
  "('s \<Rightarrow> error option \<times> 's) \<Rightarrow> ('s \<Rightarrow> error option \<times> 's) \<Rightarrow> 's \<Rightarrow> error option \<times> 's" where
  "and_then f h s = (case f s of (None, s') \<Rightarrow> h s' | (Some e, s') \<Rightarrow> (Some e, s'))"

subsection \<open>The code cells\<close>

text \<open>\<^verbatim>\<open>num_steps = int(T_total / delta_t) + 1\<close>\<close>

definition cell_num_steps :: "'a notebook_scheme \<Rightarrow> error option \<times> 'a notebook_scheme" where
  "cell_num_steps g =
     stmt (bindE (py_div (T_total g) (delta_t g)) (\<lambda>q. Inr (g\<lparr>num_steps := py_int q + 1\<rparr>))) g"

text \<open>\<^verbatim>\<open>N_t = np.zeros(num_steps)\<close>, then \<^verbatim>\<open>N_t[0] = N_0\<close>\<close>

definition cell_N_t :: "'a notebook_scheme \<Rightarrow> error option \<times> 'a notebook_scheme" where
  "cell_N_t =
     and_then (\<lambda>g. stmt (bindE (np_zeros (num_steps g)) (\<lambda>z. Inr (g\<lparr>N_t := z\<rparr>))) g)
              (\<lambda>g. stmt (bindE (setitem (N_t g) 0 (N_0 g)) (\<lambda>a. Inr (g\<lparr>N_t := a\<rparr>))) g)"

text \<open>
  The body of the loop, with the loop variable bound to \<open>i\<close>:
  \<^verbatim>\<open>dN = r * delta_t * N_t[t-1]\<close>, then \<^verbatim>\<open>N_t[t] = N_t[t-1] + dN\<close>
\<close>

definition euler_body :: "int \<Rightarrow> 'a notebook_scheme \<Rightarrow> error option \<times> 'a notebook_scheme" where
  "euler_body i =
     and_then (\<lambda>g. (None, g\<lparr>t := i\<rparr>))
    (and_then (\<lambda>g. stmt (bindE (getitem (N_t g) (t g - 1))
                           (\<lambda>p. Inr (g\<lparr>dN := r g * delta_t g * p\<rparr>))) g)
              (\<lambda>g. stmt (bindE (getitem (N_t g) (t g - 1)) (\<lambda>p.
                          bindE (setitem (N_t g) (t g) (p + dN g)) (\<lambda>a.
                          Inr (g\<lparr>N_t := a\<rparr>)))) g))"

fun for_loop :: "int list \<Rightarrow> 'a notebook_scheme \<Rightarrow> error option \<times> 'a notebook_scheme" where
  "for_loop [] g = (None, g)"
| "for_loop (i # is) g = and_then (euler_body i) (for_loop is) g"

text \<open>\<^verbatim>\<open>for t in range(1, num_steps): ...\<close>\<close>

definition cell_euler :: "'a notebook_scheme \<Rightarrow> error option \<times> 'a notebook_scheme" where
  "cell_euler g = for_loop (py_range 1 (num_steps g)) g"

text \<open>\<^verbatim>\<open>times = np.arange(num_steps) * delta_t\<close>\<close>

definition cell_times :: "'a notebook_scheme \<Rightarrow> error option \<times> 'a notebook_scheme" where
  "cell_times g =
     (None, g\<lparr>times_arr := map (\<lambda>k. k * delta_t g) (np_arange (num_steps g))\<rparr>)"


subsection \<open>The integrator\<close>

text \<open>
  The integrator is the run of the four cells from \<^verbatim>\<open>num_steps\<close> to \<^verbatim>\<open>times\<close>, in the
  order of the notebook.
\<close>

definition run_cells :: "'a notebook_scheme \<Rightarrow> error option \<times> 'a notebook_scheme" where
  "run_cells = and_then cell_num_steps (and_then cell_N_t (and_then cell_euler cell_times))"

text \<open>The trajectory is what the notebook plots: \<^verbatim>\<open>N_t\<close> against \<^verbatim>\<open>times\<close>.\<close>

definition trajectory :: "'a notebook_scheme \<Rightarrow> (real \<times> real) list" where
  "trajectory g = zip (times_arr g) (N_t g)"

text \<open>What a caller of the run sees: the exception, or the trajectory.\<close>

fun returned :: "error option \<times> 'a notebook_scheme \<Rightarrow> error + (real \<times> real) list" where
  "returned (Some e, g) = Inl e"
| "returned (None, g) = Inr (trajectory g)"

text \<open>
  \<open>integrate N0 rate dt T\<close> runs the cells in a notebook whose parameter cells have
  bound \<^verbatim>\<open>N_0\<close>, \<^verbatim>\<open>r\<close>, \<^verbatim>\<open>delta_t\<close> and \<^verbatim>\<open>T_total\<close> to the four arguments and in which
  nothing else has been computed yet.
\<close>

definition fresh :: "real \<Rightarrow> real \<Rightarrow> real \<Rightarrow> real \<Rightarrow> notebook" where
  "fresh N0 rate dt T =
     \<lparr>N_0 = N0, r = rate, T_total = T, delta_t = dt, num_steps = 0, N_t = [],
      t = 0, dN = 0, times_arr = [], solution = []\<rparr>"

definition integrate :: "real \<Rightarrow> real \<Rightarrow> real \<Rightarrow> real \<Rightarrow> error + (real \<times> real) list" where
  "integrate N0 rate dt T = returned (run_cells (fresh N0 rate dt T))"

text \<open>
  The variables the integrator cells never write: the parameters, the analytical
  solution and every other variable of the notebook.
\<close>

definition same_params :: "'a notebook_scheme \<Rightarrow> 'a notebook_scheme \<Rightarrow> bool" where
  "same_params g g' \<longleftrightarrow>
     N_0 g' = N_0 g \<and> r g' = r g \<and> T_total g' = T_total g \<and> delta_t g' = delta_t g \<and>
     solution g' = solution g \<and> notebook.more g' = notebook.more g"

subsection \<open>The global error\<close>



section \<open>The cells, one by one\<close>

lemma norm_index_in_range:
  "0 \<le> i \<Longrightarrow> i < int (length xs) \<Longrightarrow> norm_index xs i = Inr (nat i)"
  by (simp add: norm_index_def)

lemma getitem_in_range:
  "0 \<le> i \<Longrightarrow> i < int (length xs) \<Longrightarrow> getitem xs i = Inr (xs ! nat i)"
  by (simp add: getitem_def norm_index_in_range)

lemma setitem_in_range:
  "0 \<le> i \<Longrightarrow> i < int (length xs) \<Longrightarrow> setitem xs i v = Inr (xs[nat i := v])"
  by (simp add: setitem_def norm_index_in_range)

lemma euler_body_in_range:
  assumes "1 \<le> i" and "i < int (length (N_t g))"
  shows "euler_body i g =
    (None, g\<lparr>t := i, dN := r g * delta_t g * N_t g ! nat (i - 1),
           N_t := (N_t g)[nat i := N_t g ! nat (i - 1) + r g * delta_t g * N_t g ! nat (i - 1)]\<rparr>)"
  using assms by (simp add: euler_body_def and_then_def getitem_in_range setitem_in_range)

lemma for_loop_upto:
  assumes "1 \<le> lo" and "hi < int (length (N_t g))"
  shows "\<exists>g'. for_loop [lo..hi] g = (None, g') \<and>
           length (N_t g') = length (N_t g) \<and>
           (\<forall>k. int k < lo \<longrightarrow> N_t g' ! k = N_t g ! k) \<and>
           (\<forall>k. lo \<le> int k \<and> int k \<le> hi \<longrightarrow>
                N_t g' ! k = N_t g' ! (k - 1) + r g * delta_t g * N_t g' ! (k - 1)) \<and>
           same_params g g' \<and> num_steps g' = num_steps g \<and> times_arr g' = times_arr g"
  using assms
proof (induction "nat (hi + 1 - lo)" arbitrary: lo g)
  case 0
  then have "[lo..hi] = []" by simp
  then show ?case by (simp add: same_params_def)
next
  case (Suc n)
  then have le: "lo \<le> hi" by linarith
  define g1 where "g1 = g\<lparr>t := lo, dN := r g * delta_t g * N_t g ! nat (lo - 1),
           N_t := (N_t g)[nat lo := N_t g ! nat (lo - 1) + r g * delta_t g * N_t g ! nat (lo - 1)]\<rparr>"
  have body: "euler_body lo g = (None, g1)"
    unfolding g1_def using Suc.prems le by (intro euler_body_in_range) auto
  have len1: "length (N_t g1) = length (N_t g)" by (simp add: g1_def)
  have "n = nat (hi + 1 - (lo + 1))" using Suc.hyps(2) by linarith
  moreover have "1 \<le> lo + 1" using Suc.prems by simp
  moreover have "hi < int (length (N_t g1))" using Suc.prems len1 by simp
  ultimately obtain g' where run: "for_loop [lo + 1..hi] g1 = (None, g')"
    and len: "length (N_t g') = length (N_t g1)"
    and pre: "\<And>k. int k < lo + 1 \<Longrightarrow> N_t g' ! k = N_t g1 ! k"
    and rec: "\<And>k. lo + 1 \<le> int k \<Longrightarrow> int k \<le> hi \<Longrightarrow>
                N_t g' ! k = N_t g' ! (k - 1) + r g1 * delta_t g1 * N_t g' ! (k - 1)"
    and frame: "same_params g1 g'" "num_steps g' = num_steps g1" "times_arr g' = times_arr g1"
    using Suc.hyps(1)[of "lo + 1" g1] by blast
  have p1: "r g1 = r g" "delta_t g1 = delta_t g" by (simp_all add: g1_def)
  have "for_loop [lo..hi] g = (None, g')"
    using le body run by (simp add: upto_rec1 and_then_def)
  moreover have "length (N_t g') = length (N_t g)" using len len1 by simp
  moreover have "N_t g' ! k = N_t g ! k" if "int k < lo" for k
  proof -
    have "N_t g' ! k = N_t g1 ! k" using pre[of k] that by simp
    also have "\<dots> = N_t g ! k" using that by (simp add: g1_def)
    finally show ?thesis .
  qed
  moreover have "N_t g' ! k = N_t g' ! (k - 1) + r g * delta_t g * N_t g' ! (k - 1)"
    if "lo \<le> int k" "int k \<le> hi" for k
  proof (cases "int k = lo")
    case True
    then have k: "k = nat lo" "nat (lo - 1) = k - 1" "k - 1 \<noteq> k" "k < length (N_t g)"
      using Suc.prems le by auto
    have "N_t g' ! k = N_t g1 ! k" using pre[of k] True by simp
    also have "\<dots> = N_t g ! (k - 1) + r g * delta_t g * N_t g ! (k - 1)"
      using k by (simp add: g1_def)
    finally have a: "N_t g' ! k = N_t g ! (k - 1) + r g * delta_t g * N_t g ! (k - 1)" .
    have "N_t g' ! (k - 1) = N_t g1 ! (k - 1)" using pre[of "k - 1"] True Suc.prems by simp
    also have "\<dots> = N_t g ! (k - 1)" using k by (simp add: g1_def)
    finally show ?thesis using a by simp
  next
    case False
    then show ?thesis using rec[of k] that p1 by simp
  qed
  moreover have "same_params g g'" "num_steps g' = num_steps g" "times_arr g' = times_arr g"
    using frame by (simp_all add: same_params_def g1_def)
  ultimately show ?case by blast
qed

text \<open>The three ways the run raises, with the globals it leaves.\<close>

lemma run_cells_zero_step: "delta_t g = 0 \<Longrightarrow> run_cells g = (Some ZeroDivisionError, g)"
  by (simp add: run_cells_def and_then_def cell_num_steps_def py_div_def)

lemma run_cells_negative_dim:
  "delta_t g \<noteq> 0 \<Longrightarrow> py_int (T_total g / delta_t g) + 1 < 0 \<Longrightarrow>
   run_cells g = (Some ValueError, g\<lparr>num_steps := py_int (T_total g / delta_t g) + 1\<rparr>)"
  by (simp add: run_cells_def and_then_def cell_num_steps_def py_div_def cell_N_t_def np_zeros_def)

lemma run_cells_empty_array:
  "delta_t g \<noteq> 0 \<Longrightarrow> py_int (T_total g / delta_t g) + 1 = 0 \<Longrightarrow>
   run_cells g = (Some IndexError, g\<lparr>num_steps := 0, N_t := []\<rparr>)"
  by (simp add: run_cells_def and_then_def cell_num_steps_def py_div_def cell_N_t_def np_zeros_def
      setitem_def norm_index_def)

lemma run_cells_ok:
  assumes "delta_t g \<noteq> 0" and "0 \<le> py_int (T_total g / delta_t g)"
  shows "\<exists>g'. run_cells g = (None, g') \<and>
           num_steps g' = py_int (T_total g / delta_t g) + 1 \<and>
           length (N_t g') = nat (num_steps g') \<and>
           N_t g' ! 0 = N_0 g \<and>
           (\<forall>k. 1 \<le> k \<and> k < length (N_t g') \<longrightarrow>
                N_t g' ! k = N_t g' ! (k - 1) + r g * delta_t g * N_t g' ! (k - 1)) \<and>
           times_arr g' = map (\<lambda>k. real_of_int k * delta_t g) [0..num_steps g' - 1] \<and>
           same_params g g'"
proof -
  define n where "n = py_int (T_total g / delta_t g) + 1"
  define g1 where "g1 = g\<lparr>num_steps := n\<rparr>"
  define g2 where "g2 = g1\<lparr>N_t := (replicate (nat n) 0)[0 := N_0 g]\<rparr>"
  have n: "1 \<le> n" using assms(2) by (simp add: n_def)
  have c1: "cell_num_steps g = (None, g1)"
    using assms(1) by (simp add: cell_num_steps_def py_div_def g1_def n_def)
  have c2: "cell_N_t g1 = (None, g2)"
    using n by (simp add: cell_N_t_def and_then_def np_zeros_def setitem_in_range g1_def g2_def)
  have len2: "length (N_t g2) = nat n" by (simp add: g2_def)
  have "1 \<le> (1::int)" by simp
  moreover have "n - 1 < int (length (N_t g2))" using n len2 by simp
  ultimately obtain g3 where c3: "for_loop [1..n - 1] g2 = (None, g3)"
    and len3: "length (N_t g3) = length (N_t g2)"
    and pre: "\<And>k. int k < 1 \<Longrightarrow> N_t g3 ! k = N_t g2 ! k"
    and rec: "\<And>k. 1 \<le> int k \<Longrightarrow> int k \<le> n - 1 \<Longrightarrow>
                N_t g3 ! k = N_t g3 ! (k - 1) + r g2 * delta_t g2 * N_t g3 ! (k - 1)"
    and frame: "same_params g2 g3" "num_steps g3 = num_steps g2" "times_arr g3 = times_arr g2"
    using for_loop_upto[of 1 "n - 1" g2] by blast
  define g4 where "g4 = g3\<lparr>times_arr := map (\<lambda>k. k * delta_t g3) (np_arange (num_steps g3))\<rparr>"
  have ns: "num_steps g2 = n" by (simp add: g2_def g1_def)
  have c3': "cell_euler g2 = (None, g3)" using c3 ns by (simp add: cell_euler_def py_range_def)
  have c4: "cell_times g3 = (None, g4)" by (simp add: cell_times_def g4_def)
  have p2: "same_params g g2" by (simp add: same_params_def g2_def g1_def)
  have p3: "r g3 = r g" "delta_t g3 = delta_t g" "r g2 = r g" "delta_t g2 = delta_t g"
    using p2 frame(1) by (simp_all add: same_params_def)
  have "run_cells g = (None, g4)" by (simp add: run_cells_def and_then_def c1 c2 c3' c4)
  moreover have "num_steps g4 = py_int (T_total g / delta_t g) + 1"
    using frame(2) ns by (simp add: g4_def n_def)
  moreover have "length (N_t g4) = nat (num_steps g4)"
    using len3 len2 frame(2) ns by (simp add: g4_def)
  moreover have "N_t g4 ! 0 = N_0 g"
    using pre[of 0] n by (simp add: g4_def g2_def)
  moreover have "N_t g4 ! k = N_t g4 ! (k - 1) + r g * delta_t g * N_t g4 ! (k - 1)"
    if "1 \<le> k \<and> k < length (N_t g4)" for k
  proof -
    have "k < nat n" using that len3 len2 by (simp add: g4_def)
    then have "1 \<le> int k" "int k \<le> n - 1" using that by linarith+
    then show ?thesis using rec[of k] p3 by (simp add: g4_def)
  qed
  moreover have "times_arr g4 = map (\<lambda>k. real_of_int k * delta_t g) [0..num_steps g4 - 1]"
    using p3 by (simp add: g4_def np_arange_def comp_def)
  moreover have "same_params g g4"
    using p2 frame(1) by (simp add: same_params_def g4_def)
  ultimately show ?thesis by blast
qed

section \<open>The outcome of a run\<close>

text \<open>The closed form of the recurrence.\<close>

lemma recurrence_closed_form:
  fixes xs :: "real list"
  assumes "\<forall>k. 1 \<le> k \<and> k < length xs \<longrightarrow> xs ! k = xs ! (k - 1) + c * xs ! (k - 1)"
    and "k < length xs"
  shows "xs ! k = xs ! 0 * (1 + c) ^ k"
  using assms(2)
proof (induction k)
  case 0
  then show ?case by simp
next
  case (Suc k)
  then have "xs ! Suc k = xs ! k + c * xs ! k" using assms(1) by force
  also have "\<dots> = xs ! 0 * (1 + c) ^ Suc k" using Suc by (simp add: algebra_simps)
  finally show ?case .
qed

lemma nth_times:
  "k < nat n \<Longrightarrow> map (\<lambda>k. real_of_int k * d) [0..n - 1] ! k = real k * d"
  by (simp add: nth_upto)

lemma run_cells_arrays:
  assumes "delta_t g \<noteq> 0" and "0 \<le> py_int (T_total g / delta_t g)"
  shows "\<exists>g'. run_cells g = (None, g') \<and> same_params g g' \<and>
           num_steps g' = py_int (T_total g / delta_t g) + 1 \<and>
           N_t g' = map (\<lambda>k. N_0 g * (1 + r g * delta_t g) ^ k)
                      [0..<nat (py_int (T_total g / delta_t g) + 1)] \<and>
           times_arr g' = map (\<lambda>k. real k * delta_t g)
                      [0..<nat (py_int (T_total g / delta_t g) + 1)]"
proof -
  define n where "n = nat (py_int (T_total g / delta_t g) + 1)"
  obtain g' where run: "run_cells g = (None, g')"
    and ns: "num_steps g' = py_int (T_total g / delta_t g) + 1"
    and len: "length (N_t g') = nat (num_steps g')"
    and first: "N_t g' ! 0 = N_0 g"
    and rec: "\<forall>k. 1 \<le> k \<and> k < length (N_t g') \<longrightarrow>
                N_t g' ! k = N_t g' ! (k - 1) + (r g * delta_t g) * N_t g' ! (k - 1)"
    and tm: "times_arr g' = map (\<lambda>k. real_of_int k * delta_t g) [0..num_steps g' - 1]"
    and frame: "same_params g g'"
    using run_cells_ok[OF assms] by (auto simp: mult.assoc)
  have lenN: "length (N_t g') = n" using len ns by (simp add: n_def)
  have lenT: "length (times_arr g') = n" using tm ns assms(2) by (simp add: n_def)
  have "N_t g' = map (\<lambda>k. N_0 g * (1 + r g * delta_t g) ^ k) [0..<n]"
  proof (rule nth_equalityI)
    fix k assume "k < length (N_t g')"
    then show "N_t g' ! k = map (\<lambda>k. N_0 g * (1 + r g * delta_t g) ^ k) [0..<n] ! k"
      using recurrence_closed_form[OF rec, of k] lenN first by simp
  qed (simp add: lenN)
  moreover have "times_arr g' = map (\<lambda>k. real k * delta_t g) [0..<n]"
  proof (rule nth_equalityI)
    fix k assume "k < length (times_arr g')"
    then have k: "k < n" using lenT by simp
    have "times_arr g' ! k = real k * delta_t g"
      using k ns unfolding tm n_def by (intro nth_times) simp
    then show "times_arr g' ! k = map (\<lambda>k. real k * delta_t g) [0..<n] ! k"
      using k by simp
  qed (simp add: lenT)
  ultimately show ?thesis using run frame ns unfolding n_def by blast
qed

text \<open>What the caller sees, as a function of the four parameters alone.\<close>

lemma returned_run_cells:
  "returned (run_cells g) =
     (if delta_t g = 0 then Inl ZeroDivisionError
      else if py_int (T_total g / delta_t g) + 1 < 0 then Inl ValueError
      else if py_int (T_total g / delta_t g) + 1 = 0 then Inl IndexError
      else Inr (map (\<lambda>k. (real k * delta_t g, N_0 g * (1 + r g * delta_t g) ^ k))
                 [0..<nat (py_int (T_total g / delta_t g) + 1)]))"
proof -
  consider "delta_t g = 0"
    | "delta_t g \<noteq> 0" "py_int (T_total g / delta_t g) + 1 < 0"
    | "delta_t g \<noteq> 0" "py_int (T_total g / delta_t g) + 1 = 0"
    | "delta_t g \<noteq> 0" "0 \<le> py_int (T_total g / delta_t g)"
    by linarith
  then show ?thesis
  proof cases
    case 1
    then show ?thesis by (simp add: run_cells_zero_step)
  next
    case 2
    then show ?thesis by (simp add: run_cells_negative_dim)
  next
    case 3
    then show ?thesis by (simp add: run_cells_empty_array)
  next
    case 4
    then obtain g' where "run_cells g = (None, g')"
      and "N_t g' = map (\<lambda>k. N_0 g * (1 + r g * delta_t g) ^ k)
                      [0..<nat (py_int (T_total g / delta_t g) + 1)]"
      and "times_arr g' = map (\<lambda>k. real k * delta_t g)
                      [0..<nat (py_int (T_total g / delta_t g) + 1)]"
      using run_cells_arrays[of g] by blast
    then show ?thesis using 4 by (simp add: trajectory_def zip_map_map zip_same_conv_map)
  qed
qed

text \<open>Whether it returns or raises, the run writes none of the variables of \<open>same_params\<close>.\<close>

lemma run_cells_frame: "same_params g (snd (run_cells g))"
proof -
  consider "delta_t g = 0"
    | "delta_t g \<noteq> 0" "py_int (T_total g / delta_t g) + 1 < 0"
    | "delta_t g \<noteq> 0" "py_int (T_total g / delta_t g) + 1 = 0"
    | "delta_t g \<noteq> 0" "0 \<le> py_int (T_total g / delta_t g)"
    by linarith
  then show ?thesis
  proof cases
    case 1
    then show ?thesis by (simp add: run_cells_zero_step same_params_def)
  next
    case 2
    then show ?thesis by (simp add: run_cells_negative_dim same_params_def)
  next
    case 3
    then show ?thesis by (simp add: run_cells_empty_array same_params_def)
  next
    case 4
    then show ?thesis using run_cells_arrays[of g] by auto
  qed
qed

lemma integrate_cases:
  "integrate N0 rate dt T =
     (if dt = 0 then Inl ZeroDivisionError
      else if py_int (T / dt) + 1 < 0 then Inl ValueError
      else if py_int (T / dt) + 1 = 0 then Inl IndexError
      else Inr (map (\<lambda>k. (real k * dt, N0 * (1 + rate * dt) ^ k))
                 [0..<nat (py_int (T / dt) + 1)]))"
  unfolding integrate_def returned_run_cells by (simp add: fresh_def)


section \<open>The distance to the exponential\<close>
















subsection \<open>The leading term of the error\<close>














section \<open>The claims\<close>

text \<open>
  The claims on the recurrence, the number of samples, the first sample, the time grid
  and the closed form of the values speak of every valid input. On a run
  that rounds, overflows or converts a number, what the notebook returns is decided by
  binary64 and by NumPy, which this embedding leaves out: they are not stated here.
\<close>

subsection \<open>Failures\<close>



subsection \<open>Monotonicity\<close>




subsection \<open>The zero-duration boundary\<close>

text \<open>
  C7. \<open>integrate(N0=10, r=0, dt=0.1, T=0)\<close> returns a trajectory with exactly one
  sample, the pair (time 0, value 10).
\<close>

theorem integrate_single_point: "integrate 10 0 (1 / 10) 0 = Inr [(0, 10)]"
  by code_simp

subsection \<open>Determinism and the variables written\<close>

text \<open>
  C9, as the code has it. The run is deterministic: from two states of the notebook
  that agree on \<^verbatim>\<open>N_0\<close>, \<^verbatim>\<open>r\<close>, \<^verbatim>\<open>delta_t\<close> and \<^verbatim>\<open>T_total\<close>, whatever the other variables
  hold, the caller sees the same exception or the same trajectory, the one
  \<open>integrate\<close> gives for those four values. It is not free of side effects: the cells
  are a script over the globals of the notebook, and as far as it gets a run writes
  \<^verbatim>\<open>num_steps\<close>, \<^verbatim>\<open>t\<close> and \<^verbatim>\<open>dN\<close> besides \<^verbatim>\<open>N_t\<close> and \<^verbatim>\<open>times\<close>, the arrays of the
  trajectory. Every other variable (the four parameters, \<^verbatim>\<open>solution\<close> and the rest of
  the notebook) is left as it was, whether the run returns or raises.
\<close>

theorem run_cells_effects:
  "(N_0 g1 = N_0 g2 \<and> r g1 = r g2 \<and> delta_t g1 = delta_t g2 \<and> T_total g1 = T_total g2 \<longrightarrow>
      returned (run_cells g1) = returned (run_cells g2)) \<and>
   returned (run_cells g1) = integrate (N_0 g1) (r g1) (delta_t g1) (T_total g1) \<and>
   same_params g1 (snd (run_cells g1))"
proof -
  have "returned (run_cells g1) = returned (run_cells g2)"
    if "N_0 g1 = N_0 g2 \<and> r g1 = r g2 \<and> delta_t g1 = delta_t g2 \<and> T_total g1 = T_total g2"
    using that unfolding returned_run_cells by simp
  moreover have "returned (run_cells g1) = integrate (N_0 g1) (r g1) (delta_t g1) (T_total g1)"
    unfolding returned_run_cells integrate_cases by (rule refl)
  moreover have "same_params g1 (snd (run_cells g1))" by (rule run_cells_frame)
  ultimately show ?thesis by blast
qed

theorem run_cells_effects_witness:
  "N_0 (fresh 1 2 (1 / 2) 2) = N_0 ((fresh 1 2 (1 / 2) 2)\<lparr>num_steps := 7, N_t := [5, 5], times_arr := [1]\<rparr>) \<and>
   r (fresh 1 2 (1 / 2) 2) = r ((fresh 1 2 (1 / 2) 2)\<lparr>num_steps := 7, N_t := [5, 5], times_arr := [1]\<rparr>) \<and>
   delta_t (fresh 1 2 (1 / 2) 2) = delta_t ((fresh 1 2 (1 / 2) 2)\<lparr>num_steps := 7, N_t := [5, 5], times_arr := [1]\<rparr>) \<and>
   T_total (fresh 1 2 (1 / 2) 2) = T_total ((fresh 1 2 (1 / 2) 2)\<lparr>num_steps := 7, N_t := [5, 5], times_arr := [1]\<rparr>) \<and>
   returned (run_cells ((fresh 1 2 (1 / 2) 2)\<lparr>num_steps := 7, N_t := [5, 5], times_arr := [1]\<rparr>)) =
     Inr [(0, 1), (1 / 2, 2), (1, 4), (3 / 2, 8), (2, 16)]"
proof -
  define g1 where "g1 = fresh 1 2 (1 / 2) 2"
  define g2 where "g2 = g1\<lparr>num_steps := 7, N_t := [5, 5], times_arr := [1]\<rparr>"
  have h: "N_0 g1 = N_0 g2 \<and> r g1 = r g2 \<and> delta_t g1 = delta_t g2 \<and> T_total g1 = T_total g2"
    by (simp add: g2_def)
  have "returned (run_cells g1) = Inr [(0, 1), (1 / 2, 2), (1, 4), (3 / 2, 8), (2, 16)]"
    unfolding g1_def by code_simp
  moreover have "returned (run_cells g1) = returned (run_cells g2)"
    using run_cells_effects[of g1 g2] h by blast
  ultimately have "returned (run_cells g2) = Inr [(0, 1), (1 / 2, 2), (1, 4), (3 / 2, 8), (2, 16)]"
    by simp
  then show ?thesis using h unfolding g2_def g1_def by blast
qed

text \<open>
  Against C9 as stated: in a notebook where \<^verbatim>\<open>num_steps\<close>, \<^verbatim>\<open>t\<close> and \<^verbatim>\<open>dN\<close> hold 7, 3
  and 9, the run with \<open>N0 = 1\<close>, \<open>r = 2\<close>, \<open>dt = 0.5\<close>, \<open>T = 2\<close> returns and leaves 5, 4 and
  8 in them: variables outside the returned trajectory are modified.
\<close>

theorem globals_overwritten_counterexample:
  "run_cells \<lparr>N_0 = 1, r = 2, T_total = 2, delta_t = 1 / 2, num_steps = 7, N_t = [],
       t = 3, dN = 9, times_arr = [], solution = []\<rparr> =
   (None, \<lparr>N_0 = 1, r = 2, T_total = 2, delta_t = 1 / 2, num_steps = 5, N_t = [1, 2, 4, 8, 16],
       t = 4, dN = 8, times_arr = [0, 1 / 2, 1, 3 / 2, 2], solution = []\<rparr>)"
  by code_simp

subsection \<open>Convergence\<close>



end
